theory Spec2Isabelle
  imports Main "HOL-Library.AList"
begin

section \<open>Host values\<close>

text \<open>
  The service of \<^verbatim>\<open>src/lib/socket.ts\<close> handles decoded JSON messages with JavaScript's
  property reads and its \<^verbatim>\<open>||\<close> operator. A value is what \<^verbatim>\<open>JSON.parse\<close> can return, plus
  \<^verbatim>\<open>undefined\<close>, the result of reading a property that is not there. Numbers are integers
  here (no claim depends on fractions); an object is its list of properties, read at the
  first binding of a name.
\<close>

datatype jsvalue =
    Undefined
  | Null
  | Bool bool
  | Num int
  | Str string
  | Arr "jsvalue list"
  | Obj "(string \<times> jsvalue) list"

text \<open>What can be thrown: a TypeError by a property read, an InvalidStateError by
  \<^verbatim>\<open>WebSocket.send\<close>, and whatever a listener throws.\<close>

datatype error = TypeError | InvalidStateError | ListenerError

text \<open>JavaScript's truthiness: \<^verbatim>\<open>undefined\<close>, \<^verbatim>\<open>null\<close>, \<^verbatim>\<open>false\<close>, \<^verbatim>\<open>0\<close> and \<^verbatim>\<open>""\<close> are falsy.\<close>

fun truthy :: "jsvalue \<Rightarrow> bool" where
  "truthy Undefined = False"
| "truthy Null = False"
| "truthy (Bool b) = b"
| "truthy (Num n) = (n \<noteq> 0)"
| "truthy (Str s) = (s \<noteq> [])"
| "truthy (Arr xs) = True"
| "truthy (Obj kvs) = True"

text \<open>\<^verbatim>\<open>a || b\<close>: the left operand when it is truthy, the right one otherwise.\<close>

definition js_or :: "jsvalue \<Rightarrow> jsvalue \<Rightarrow> jsvalue" where
  "js_or a b = (if truthy a then a else b)"

text \<open>The value of a property of an object, \<^verbatim>\<open>undefined\<close> when the object has none of
  that name.\<close>

definition field :: "(string \<times> jsvalue) list \<Rightarrow> string \<Rightarrow> jsvalue" where
  "field kvs p = (case map_of kvs p of None \<Rightarrow> Undefined | Some v \<Rightarrow> v)"

text \<open>
  \<^verbatim>\<open>v.p\<close> for the property names the handlers read (\<^verbatim>\<open>event\<close>, \<^verbatim>\<open>type\<close>, \<^verbatim>\<open>data\<close>): a
  TypeError on \<^verbatim>\<open>null\<close> and \<^verbatim>\<open>undefined\<close>, the property of an object, \<^verbatim>\<open>undefined\<close> on
  every other value.
\<close>

fun getProp :: "jsvalue \<Rightarrow> string \<Rightarrow> error + jsvalue" where
  "getProp Undefined p = Inl TypeError"
| "getProp Null p = Inl TypeError"
| "getProp (Obj kvs) p = Inr (field kvs p)"
| "getProp v p = Inr Undefined"

section \<open>The service and its host environment\<close>

text \<open>
  A callback is known by its reference (\<^verbatim>\<open>indexOf\<close> compares references), so it is a
  number; every call of one is recorded in \<open>calls\<close>. What a callback does when it is called
  belongs to the caller of the service and is a parameter (\<open>listener\<close> below): the public
  methods it calls on the service, in order, and whether it then throws.
\<close>

type_synonym callback = nat

datatype call =
    Call_connect
  | Call_disconnect
  | Call_on string callback
  | Call_off string "callback option"
  | Call_onRoomUpdate string callback
  | Call_offRoomUpdate string "callback option"
  | Call_onActivityUpdate string callback
  | Call_offActivityUpdate string "callback option"
  | Call_emit string "jsvalue list"

datatype readyState = CONNECTING | OPEN | CLOSING | CLOSED

datatype timer_kind = ConnectionTimeout | ReconnectTimer | SSERetry string

record timer =
  t_kind :: timer_kind
  t_delay :: nat
  t_pending :: bool

text \<open>
  A WebSocket object: its readyState and the \<^verbatim>\<open>connectionTimeout\<close> handle that the handlers
  installed by \<^verbatim>\<open>connectWebSocket\<close> close over. An EventSource object: the hotel id its
  handlers close over and its readyState.
\<close>

record websocket =
  ws_readyState :: readyState
  ws_connectionTimeout :: nat

record eventsource =
  es_hotelId :: string
  es_readyState :: readyState

text \<open>
  The fields of \<^verbatim>\<open>SocketService\<close>, then the host objects it created: WebSocket and
  EventSource objects and timers are named by their position in the lists \<open>wsockets\<close>,
  \<open>eventSources\<close> and \<open>timers\<close>; \<open>sent\<close> holds the frames given to an open socket and
  \<open>calls\<close> the listener invocations. A handle of the source is truthy exactly when it is
  set (browser timer ids are positive), so handles are options.
  \<^verbatim>\<open>maxReconnectAttempts\<close> and \<^verbatim>\<open>reconnectInterval\<close> are never assigned and are constants.
\<close>

record 'w service =
  socket :: "nat option"
  isConnected :: bool
  eventListeners :: "string \<rightharpoonup> callback list"
  reconnectAttempts :: nat
  reconnectTimer :: "nat option"
  pollingInterval :: "nat option"
  sseConnections :: "(string \<times> nat) list"
  useSSE :: bool
  wsockets :: "websocket list"
  eventSources :: "eventsource list"
  timers :: "timer list"
  sent :: "(nat \<times> 'w) list"
  calls :: "(callback \<times> jsvalue) list"

definition maxReconnectAttempts :: nat where
  "maxReconnectAttempts = 2"

definition reconnectInterval :: nat where
  "reconnectInterval = 1000"

text \<open>
  What the module takes from outside: \<^verbatim>\<open>IS_PRODUCTION\<close> (from \<^verbatim>\<open>process.env.NODE_ENV\<close>), the
  host's \<^verbatim>\<open>JSON.parse\<close> (\<open>None\<close> when it throws) and \<^verbatim>\<open>JSON.stringify\<close> over frames of type
  \<open>'w\<close>, whether the constructors \<^verbatim>\<open>new WebSocket\<close> and \<^verbatim>\<open>new EventSource\<close> throw, and the
  code of the callbacks: \<open>listener cfg cb v s\<close> is what callback \<open>cb\<close> does when it is called with
  \<open>v\<close> while the service is in state \<open>s\<close>, as the calls it makes and whether it throws after
  them. (The reads \<^verbatim>\<open>getSocket\<close> and \<^verbatim>\<open>isSocketConnected\<close> change nothing and are not
  listed; an exception of a call made by a listener leaves the listener.)
\<close>

record 'w config =
  IS_PRODUCTION :: bool
  JSON_parse :: "'w \<Rightarrow> jsvalue option"
  JSON_stringify :: "jsvalue \<Rightarrow> 'w"
  WebSocket_throws :: bool
  EventSource_throws :: bool
  listener :: "callback \<Rightarrow> jsvalue \<Rightarrow> 'w service \<Rightarrow> call list \<times> bool"

definition init :: "'w service" where
  "init = \<lparr> socket = None, isConnected = False, eventListeners = Map.empty,
      reconnectAttempts = 0, reconnectTimer = None, pollingInterval = None,
      sseConnections = [], useSSE = False, wsockets = [], eventSources = [],
      timers = [], sent = [], calls = [] \<rparr>"

subsection \<open>Host operations\<close>

definition setTimeout :: "timer_kind \<Rightarrow> nat \<Rightarrow> 'w service \<Rightarrow> nat \<times> 'w service" where
  "setTimeout k d s =
     (length (timers s),
      s\<lparr>timers := timers s @ [\<lparr>t_kind = k, t_delay = d, t_pending = True\<rparr>]\<rparr>)"

definition clearTimeout :: "nat \<Rightarrow> 'w service \<Rightarrow> 'w service" where
  "clearTimeout t s =
     (if t < length (timers s)
      then s\<lparr>timers := (timers s)[t := (timers s ! t)\<lparr>t_pending := False\<rparr>]\<rparr>
      else s)"

text \<open>\<^verbatim>\<open>WebSocket.close()\<close>: a connecting or open socket starts closing; otherwise nothing.\<close>

definition WebSocket_close :: "nat \<Rightarrow> 'w service \<Rightarrow> 'w service" where
  "WebSocket_close w s =
     (if w < length (wsockets s) \<and>
         (ws_readyState (wsockets s ! w) = CONNECTING \<or> ws_readyState (wsockets s ! w) = OPEN)
      then s\<lparr>wsockets := (wsockets s)[w := (wsockets s ! w)\<lparr>ws_readyState := CLOSING\<rparr>]\<rparr>
      else s)"

text \<open>\<^verbatim>\<open>EventSource.close()\<close>: the stream is closed and fires no further event.\<close>

definition EventSource_close :: "nat \<Rightarrow> 'w service \<Rightarrow> 'w service" where
  "EventSource_close e s =
     (if e < length (eventSources s)
      then s\<lparr>eventSources := (eventSources s)[e := (eventSources s ! e)\<lparr>es_readyState := CLOSED\<rparr>]\<rparr>
      else s)"

text \<open>
  \<^verbatim>\<open>WebSocket.send(frame)\<close>: throws InvalidStateError while connecting, transmits when open,
  discards the frame when closing or closed.
\<close>

definition WebSocket_send :: "nat \<Rightarrow> 'w \<Rightarrow> 'w service \<Rightarrow> error + 'w service" where
  "WebSocket_send w frame s =
     (if w < length (wsockets s) then
        (case ws_readyState (wsockets s ! w) of
           CONNECTING \<Rightarrow> Inl InvalidStateError
         | OPEN \<Rightarrow> Inr (s\<lparr>sent := sent s @ [(w, frame)]\<rparr>)
         | CLOSING \<Rightarrow> Inr s
         | CLOSED \<Rightarrow> Inr s)
      else Inr s)"

subsection \<open>Private methods\<close>

definition switchToSSE :: "'w service \<Rightarrow> 'w service" where
  "switchToSSE s =
     (let s1 = s\<lparr>useSSE := True, isConnected := False, reconnectAttempts := 0\<rparr>;
          s2 = (case socket s1 of
                  Some w \<Rightarrow> (WebSocket_close w s1)\<lparr>socket := None\<rparr>
                | None \<Rightarrow> s1)
      in (case reconnectTimer s2 of
            Some t \<Rightarrow> (clearTimeout t s2)\<lparr>reconnectTimer := None\<rparr>
          | None \<Rightarrow> s2))"

text \<open>
  \<^verbatim>\<open>connectWebSocket\<close>: the new object becomes \<^verbatim>\<open>this.socket\<close> (the previous one is neither
  closed nor forgotten by the host), and the connection timeout is scheduled. When the
  constructor throws, the \<^verbatim>\<open>catch\<close> only clears \<^verbatim>\<open>isConnected\<close>.
\<close>

definition connectWebSocket :: "'w config \<Rightarrow> 'w service \<Rightarrow> 'w service" where
  "connectWebSocket cfg s =
     (if WebSocket_throws cfg then s\<lparr>isConnected := False\<rparr>
      else
        (let w = length (wsockets s);
             (t, s1) = setTimeout ConnectionTimeout 3000 (s\<lparr>socket := Some w\<rparr>)
         in s1\<lparr>wsockets := wsockets s1 @
                  [\<lparr>ws_readyState = CONNECTING, ws_connectionTimeout = t\<rparr>]\<rparr>))"

definition attemptReconnect :: "'w service \<Rightarrow> 'w service" where
  "attemptReconnect s =
     (if useSSE s then s
      else if reconnectAttempts s \<ge> maxReconnectAttempts then switchToSSE s
      else
        (let s1 = s\<lparr>reconnectAttempts := reconnectAttempts s + 1\<rparr>;
             (t, s2) = setTimeout ReconnectTimer reconnectInterval s1
         in s2\<lparr>reconnectTimer := Some t\<rparr>))"

definition connectSSE :: "'w config \<Rightarrow> string \<Rightarrow> 'w service \<Rightarrow> 'w service" where
  "connectSSE cfg hotelId s =
     (if map_of (sseConnections s) hotelId \<noteq> None then s
      else if EventSource_throws cfg then s
      else
        (let e = length (eventSources s)
         in s\<lparr>eventSources := eventSources s @
                 [\<lparr>es_hotelId = hotelId, es_readyState = CONNECTING\<rparr>],
               sseConnections := AList.update hotelId e (sseConnections s)\<rparr>))"

subsection \<open>Handlers installed on a WebSocket\<close>

text \<open>Every handler reads \<^verbatim>\<open>this\<close>, the service as it is when the event arrives; \<open>ct\<close> is
  the \<^verbatim>\<open>connectionTimeout\<close> handle of the socket that fires.\<close>

definition connectionTimeout_fires :: "'w service \<Rightarrow> 'w service" where
  "connectionTimeout_fires s =
     (case socket s of
        None \<Rightarrow> s
      | Some w \<Rightarrow>
          if w < length (wsockets s) \<and> ws_readyState (wsockets s ! w) = CONNECTING
          then switchToSSE (WebSocket_close w s)
          else s)"

definition ws_onopen :: "nat \<Rightarrow> 'w service \<Rightarrow> 'w service" where
  "ws_onopen ct s =
     (let s1 = clearTimeout ct (s\<lparr>isConnected := True, reconnectAttempts := 0, useSSE := False\<rparr>)
      in (case reconnectTimer s1 of
            Some t \<Rightarrow> (clearTimeout t s1)\<lparr>reconnectTimer := None\<rparr>
          | None \<Rightarrow> s1))"

definition ws_onclose :: "nat \<Rightarrow> nat \<Rightarrow> 'w service \<Rightarrow> 'w service" where
  "ws_onclose ct code s =
     (let s1 = clearTimeout ct (s\<lparr>isConnected := False\<rparr>)
      in if code = 1006 then switchToSSE s1 else attemptReconnect s1)"

definition ws_onerror :: "nat \<Rightarrow> 'w service \<Rightarrow> 'w service" where
  "ws_onerror ct s =
     (let s1 = clearTimeout ct (s\<lparr>isConnected := False\<rparr>)
      in if \<not> useSSE s1 then switchToSSE s1 else s1)"

text \<open>The \<^verbatim>\<open>onmessage\<close> handlers call listeners, which may call the public methods; they
  are defined after those.\<close>

subsection \<open>Handlers installed on an EventSource\<close>

definition es_onopen :: "'w service \<Rightarrow> 'w service" where
  "es_onopen s = s\<lparr>isConnected := True\<rparr>"

text \<open>
  \<^verbatim>\<open>onerror\<close>: the map entry of the hotel is deleted (the stream is not closed); unless the
  stream is already closed (\<open>closed\<close> is \<^verbatim>\<open>eventSource.readyState === 2\<close>), a retry timer is
  scheduled, whose handle is not kept.
\<close>

definition es_onerror :: "string \<Rightarrow> bool \<Rightarrow> 'w service \<Rightarrow> 'w service" where
  "es_onerror hotelId closed s =
     (let s1 = s\<lparr>sseConnections := AList.delete hotelId (sseConnections s)\<rparr>
      in if closed then s1
         else snd (setTimeout (SSERetry hotelId)
                     (min (5000 * 2 ^ reconnectAttempts s1) 30000) s1))"

definition sseRetry_fires :: "'w config \<Rightarrow> string \<Rightarrow> 'w service \<Rightarrow> 'w service" where
  "sseRetry_fires cfg hotelId s =
     (if useSSE s \<and> map_of (sseConnections s) hotelId = None then
        (let s1 = s\<lparr>reconnectAttempts := reconnectAttempts s + 1\<rparr>
         in if reconnectAttempts s1 < maxReconnectAttempts then connectSSE cfg hotelId s1 else s1)
      else s)"

subsection \<open>Public methods\<close>

definition connect :: "'w config \<Rightarrow> 'w service \<Rightarrow> nat option \<times> 'w service" where
  "connect cfg s =
     (if socket s \<noteq> None \<and> isConnected s then (socket s, s)
      else if IS_PRODUCTION cfg \<and> \<not> useSSE s then (None, switchToSSE s)
      else if \<not> useSSE s then (let s1 = connectWebSocket cfg s in (socket s1, s1))
      else (socket s, s))"

text \<open>\<^verbatim>\<open>disconnect\<close>: the streams of \<^verbatim>\<open>sseConnections\<close> are closed in the order of the map.\<close>

definition disconnect :: "'w service \<Rightarrow> 'w service" where
  "disconnect s =
     (let s1 = (case reconnectTimer s of
                  Some t \<Rightarrow> (clearTimeout t s)\<lparr>reconnectTimer := None\<rparr>
                | None \<Rightarrow> s);
          s2 = (case pollingInterval s1 of
                  Some t \<Rightarrow> (clearTimeout t s1)\<lparr>pollingInterval := None\<rparr>
                | None \<Rightarrow> s1);
          s3 = (case socket s2 of
                  Some w \<Rightarrow> (WebSocket_close w s2)\<lparr>socket := None\<rparr>
                | None \<Rightarrow> s2);
          s4 = foldl (\<lambda>st (hotelId, e). EventSource_close e st) s3 (sseConnections s3)
      in s4\<lparr>sseConnections := [], isConnected := False, useSSE := False,
            reconnectAttempts := 0, eventListeners := Map.empty\<rparr>)"

text \<open>The registration shared by \<^verbatim>\<open>on\<close>, \<^verbatim>\<open>onRoomUpdate\<close> and \<^verbatim>\<open>onActivityUpdate\<close>:
  create the list of the key if there is none, then \<^verbatim>\<open>push\<close>.\<close>

definition push_listener :: "string \<Rightarrow> callback \<Rightarrow> 'w service \<Rightarrow> 'w service" where
  "push_listener eventName cb s =
     (let s1 = (if eventListeners s eventName = None
                then s\<lparr>eventListeners := (eventListeners s)(eventName \<mapsto> [])\<rparr> else s)
      in (case eventListeners s1 eventName of
            Some listeners \<Rightarrow> s1\<lparr>eventListeners := (eventListeners s1)(eventName \<mapsto> listeners @ [cb])\<rparr>
          | None \<Rightarrow> s1))"

text \<open>\<^verbatim>\<open>indexOf\<close> (\<open>-1\<close> when absent) and \<^verbatim>\<open>splice(index, 1)\<close>.\<close>

fun indexOf :: "callback list \<Rightarrow> callback \<Rightarrow> int" where
  "indexOf [] cb = -1"
| "indexOf (x # xs) cb =
     (if x = cb then 0 else (let i = indexOf xs cb in if i > -1 then i + 1 else -1))"

definition splice1 :: "int \<Rightarrow> callback list \<Rightarrow> callback list" where
  "splice1 i xs = take (nat i) xs @ drop (nat i + 1) xs"

text \<open>The removal shared by \<^verbatim>\<open>off\<close>, \<^verbatim>\<open>offRoomUpdate\<close> and \<^verbatim>\<open>offActivityUpdate\<close>; an omitted
  callback is \<open>None\<close>.\<close>

definition remove_listener :: "string \<Rightarrow> callback option \<Rightarrow> 'w service \<Rightarrow> 'w service" where
  "remove_listener eventName callback s =
     (case callback of
        None \<Rightarrow> s
      | Some cb \<Rightarrow>
         (case eventListeners s eventName of
            None \<Rightarrow> s
          | Some listeners \<Rightarrow>
             (let index = indexOf listeners cb
              in if index > -1
                 then s\<lparr>eventListeners := (eventListeners s)(eventName \<mapsto> splice1 index listeners)\<rparr>
                 else s)))"

definition onRoomUpdate :: "'w config \<Rightarrow> string \<Rightarrow> callback \<Rightarrow> 'w service \<Rightarrow> 'w service" where
  "onRoomUpdate cfg hotelId cb s =
     (let s1 = push_listener (''roomUpdate:'' @ hotelId) cb s
      in if useSSE s1 then connectSSE cfg hotelId s1
         else if socket s1 = None then snd (connect cfg s1)
         else s1)"

definition offRoomUpdate :: "string \<Rightarrow> callback option \<Rightarrow> 'w service \<Rightarrow> 'w service" where
  "offRoomUpdate hotelId callback s = remove_listener (''roomUpdate:'' @ hotelId) callback s"

definition onActivityUpdate :: "'w config \<Rightarrow> string \<Rightarrow> callback \<Rightarrow> 'w service \<Rightarrow> 'w service" where
  "onActivityUpdate cfg hotelId cb s =
     (let s1 = push_listener (''activityUpdate:'' @ hotelId) cb s
      in if useSSE s1 then connectSSE cfg hotelId s1
         else if socket s1 = None then snd (connect cfg s1)
         else s1)"

definition offActivityUpdate :: "string \<Rightarrow> callback option \<Rightarrow> 'w service \<Rightarrow> 'w service" where
  "offActivityUpdate hotelId callback s = remove_listener (''activityUpdate:'' @ hotelId) callback s"

definition on :: "'w config \<Rightarrow> string \<Rightarrow> callback \<Rightarrow> 'w service \<Rightarrow> 'w service" where
  "on cfg event cb s =
     push_listener event cb (if socket s = None then snd (connect cfg s) else s)"

definition off :: "string \<Rightarrow> callback option \<Rightarrow> 'w service \<Rightarrow> 'w service" where
  "off event callback s = remove_listener event callback s"

text \<open>\<^verbatim>\<open>emit(event, ...args)\<close>: the envelope carries the one argument, or the array of them.\<close>

definition envelope :: "string \<Rightarrow> jsvalue list \<Rightarrow> jsvalue" where
  "envelope event args =
     Obj [(''event'', Str event),
          (''data'', (case args of [a] \<Rightarrow> a | _ \<Rightarrow> Arr args))]"

definition emit :: "'w config \<Rightarrow> string \<Rightarrow> jsvalue list \<Rightarrow> 'w service \<Rightarrow> error + 'w service" where
  "emit cfg event args s =
     (case socket s of
        None \<Rightarrow> Inr s
      | Some w \<Rightarrow>
          if isConnected s then WebSocket_send w (JSON_stringify cfg (envelope event args)) s
          else Inr s)"

definition getSocket :: "'w service \<Rightarrow> nat option" where
  "getSocket s = socket s"

definition isSocketConnected :: "'w service \<Rightarrow> bool" where
  "isSocketConnected s = isConnected s"

subsection \<open>Delivery of a message to the listeners\<close>

text \<open>A public method called by a listener; only \<^verbatim>\<open>emit\<close> can throw.\<close>

fun do_call :: "'w config \<Rightarrow> call \<Rightarrow> 'w service \<Rightarrow> error + 'w service" where
  "do_call cfg Call_connect s = Inr (snd (connect cfg s))"
| "do_call cfg Call_disconnect s = Inr (disconnect s)"
| "do_call cfg (Call_on event cb) s = Inr (on cfg event cb s)"
| "do_call cfg (Call_off event callback) s = Inr (off event callback s)"
| "do_call cfg (Call_onRoomUpdate hotelId cb) s = Inr (onRoomUpdate cfg hotelId cb s)"
| "do_call cfg (Call_offRoomUpdate hotelId callback) s = Inr (offRoomUpdate hotelId callback s)"
| "do_call cfg (Call_onActivityUpdate hotelId cb) s = Inr (onActivityUpdate cfg hotelId cb s)"
| "do_call cfg (Call_offActivityUpdate hotelId callback) s =
     Inr (offActivityUpdate hotelId callback s)"
| "do_call cfg (Call_emit event args) s = emit cfg event args s"

text \<open>
  \<^verbatim>\<open>listeners.forEach(...)\<close> walks the array object it got from the map, not a copy. While
  that array is still the one the map holds for the key (\<open>Live\<close>), a \<^verbatim>\<open>push\<close> or \<^verbatim>\<open>splice\<close>
  made by a listener through \<^verbatim>\<open>on\<close> or \<^verbatim>\<open>off\<close> changes the array being walked. The map
  drops an array only in \<^verbatim>\<open>disconnect\<close> (\<^verbatim>\<open>eventListeners.clear()\<close>); from then on the walk
  continues on the array as it was (\<open>Detached\<close>), and a later \<^verbatim>\<open>on\<close> for the key makes a new
  array.
\<close>

datatype iterated = Live | Detached "callback list"

definition array_of :: "string \<Rightarrow> iterated \<Rightarrow> 'w service \<Rightarrow> callback list" where
  "array_of key it s =
     (case it of
        Live \<Rightarrow> (case eventListeners s key of Some l \<Rightarrow> l | None \<Rightarrow> [])
      | Detached l \<Rightarrow> l)"

text \<open>The array walked after call \<open>c\<close> was made in state \<open>s\<close>.\<close>

definition after_call :: "string \<Rightarrow> call \<Rightarrow> iterated \<Rightarrow> 'w service \<Rightarrow> iterated" where
  "after_call key c it s =
     (case it of
        Detached l \<Rightarrow> Detached l
      | Live \<Rightarrow> if c = Call_disconnect then Detached (array_of key Live s) else Live)"

text \<open>The calls of a listener, in order, up to the first that throws.\<close>

fun perform :: "'w config \<Rightarrow> string \<Rightarrow> call list \<Rightarrow> iterated \<Rightarrow> 'w service \<Rightarrow>
    error option \<times> iterated \<times> 'w service" where
  "perform cfg key [] it s = (None, it, s)"
| "perform cfg key (c # cs) it s =
     (case do_call cfg c s of
        Inl err \<Rightarrow> (Some err, it, s)
      | Inr s' \<Rightarrow> perform cfg key cs (after_call key c it s) s')"

text \<open>\<^verbatim>\<open>callback(payload)\<close>: the call is recorded, the listener runs, and it returns or
  throws. What it changed before throwing stays changed.\<close>

definition invoke :: "'w config \<Rightarrow> string \<Rightarrow> callback \<Rightarrow> jsvalue \<Rightarrow> iterated \<Rightarrow> 'w service \<Rightarrow>
    error option \<times> iterated \<times> 'w service" where
  "invoke cfg key cb payload it s =
     (let s0 = s\<lparr>calls := calls s @ [(cb, payload)]\<rparr>;
          (cs, throws) = listener cfg cb payload s0
      in (case perform cfg key cs it s0 of
            (Some err, it', s') \<Rightarrow> (Some err, it', s')
          | (None, it', s') \<Rightarrow> (if throws then Some ListenerError else None, it', s')))"

text \<open>
  \<^verbatim>\<open>Array.prototype.forEach\<close>: the length is read once, before the first call; index \<open>k\<close>
  is visited when the array still has an element there, and skipped otherwise. \<open>n\<close> is the
  number of indices left. An exception ends the walk.
\<close>

fun forEach_from :: "'w config \<Rightarrow> string \<Rightarrow> jsvalue \<Rightarrow> nat \<Rightarrow> nat \<Rightarrow> iterated \<Rightarrow> 'w service \<Rightarrow>
    error option \<times> 'w service" where
  "forEach_from cfg key payload 0 k it s = (None, s)"
| "forEach_from cfg key payload (Suc n) k it s =
     (if k < length (array_of key it s) then
        (case invoke cfg key (array_of key it s ! k) payload it s of
           (Some err, it', s') \<Rightarrow> (Some err, s')
         | (None, it', s') \<Rightarrow> forEach_from cfg key payload n (Suc k) it' s')
      else forEach_from cfg key payload n (Suc k) it s)"

definition forEach_listener :: "'w config \<Rightarrow> string \<Rightarrow> jsvalue \<Rightarrow> 'w service \<Rightarrow>
    error option \<times> 'w service" where
  "forEach_listener cfg key payload s =
     forEach_from cfg key payload (length (array_of key Live s)) 0 Live s"

text \<open>
  The body of the \<^verbatim>\<open>try\<close> of \<^verbatim>\<open>onmessage\<close>, after \<^verbatim>\<open>JSON.parse\<close> has returned \<open>data\<close>. The
  keys of the map are strings, so \<^verbatim>\<open>get\<close> finds nothing for another value.
\<close>

definition deliver :: "'w config \<Rightarrow> jsvalue \<Rightarrow> 'w service \<Rightarrow> error option \<times> 'w service" where
  "deliver cfg data s =
     (case getProp data ''event'' of
        Inl err \<Rightarrow> (Some err, s)
      | Inr ev \<Rightarrow>
         (case (if truthy ev then Inr ev else getProp data ''type'') of
            Inl err \<Rightarrow> (Some err, s)
          | Inr eventName \<Rightarrow>
             (case eventName of
                Str key \<Rightarrow>
                  (case eventListeners s key of
                     None \<Rightarrow> (None, s)
                   | Some listeners \<Rightarrow>
                      (case getProp data ''data'' of
                         Inl err \<Rightarrow> (Some err, s)
                       | Inr d \<Rightarrow> forEach_listener cfg key (js_or d data) s))
              | _ \<Rightarrow> (None, s))))"

text \<open>The \<^verbatim>\<open>catch\<close> logs the exception, of \<^verbatim>\<open>JSON.parse\<close> or of the delivery, and the
  handler returns: the service is as the exception left it.\<close>

definition ws_onmessage :: "'w config \<Rightarrow> 'w \<Rightarrow> 'w service \<Rightarrow> 'w service" where
  "ws_onmessage cfg raw s =
     (case JSON_parse cfg raw of
        None \<Rightarrow> s
      | Some data \<Rightarrow> snd (deliver cfg data s))"

definition es_onmessage :: "'w config \<Rightarrow> 'w \<Rightarrow> 'w service \<Rightarrow> 'w service" where
  "es_onmessage cfg raw s =
     (case JSON_parse cfg raw of
        None \<Rightarrow> s
      | Some data \<Rightarrow> snd (deliver cfg data s))"

section \<open>Events and runs\<close>

text \<open>
  JavaScript runs one callback at a time, so a run of the service is a sequence of events:
  calls of the public methods, events of a WebSocket or an EventSource, and timers that
  fire. The host delivers an event only to an object that exists and can still fire it: a
  socket opens once, from CONNECTING; a closed socket or stream fires nothing; a cleared or
  fired timer does not fire. An exception of \<^verbatim>\<open>emit\<close> goes to its caller and leaves the
  service as it was.
\<close>

datatype 'w event =
    Connect
  | Disconnect
  | On string callback
  | Off string "callback option"
  | OnRoomUpdate string callback
  | OffRoomUpdate string "callback option"
  | OnActivityUpdate string callback
  | OffActivityUpdate string "callback option"
  | Emit string "jsvalue list"
  | WsOpen nat
  | WsClose nat nat
  | WsError nat
  | WsMessage nat 'w
  | Fire nat
  | SseOpen nat
  | SseMessage nat 'w
  | SseError nat bool

definition set_ws_readyState :: "nat \<Rightarrow> readyState \<Rightarrow> 'w service \<Rightarrow> 'w service" where
  "set_ws_readyState w r s = s\<lparr>wsockets := (wsockets s)[w := (wsockets s ! w)\<lparr>ws_readyState := r\<rparr>]\<rparr>"

definition set_es_readyState :: "nat \<Rightarrow> readyState \<Rightarrow> 'w service \<Rightarrow> 'w service" where
  "set_es_readyState e r s = s\<lparr>eventSources := (eventSources s)[e := (eventSources s ! e)\<lparr>es_readyState := r\<rparr>]\<rparr>"

definition fire :: "'w config \<Rightarrow> nat \<Rightarrow> 'w service \<Rightarrow> 'w service" where
  "fire cfg t s =
     (if t < length (timers s) \<and> t_pending (timers s ! t) then
        (let s1 = s\<lparr>timers := (timers s)[t := (timers s ! t)\<lparr>t_pending := False\<rparr>]\<rparr>
         in (case t_kind (timers s ! t) of
               ConnectionTimeout \<Rightarrow> connectionTimeout_fires s1
             | ReconnectTimer \<Rightarrow> connectWebSocket cfg s1
             | SSERetry hotelId \<Rightarrow> sseRetry_fires cfg hotelId s1))
      else s)"

fun step :: "'w config \<Rightarrow> 'w service \<Rightarrow> 'w event \<Rightarrow> 'w service" where
  "step cfg s Connect = snd (connect cfg s)"
| "step cfg s Disconnect = disconnect s"
| "step cfg s (On event cb) = on cfg event cb s"
| "step cfg s (Off event callback) = off event callback s"
| "step cfg s (OnRoomUpdate hotelId cb) = onRoomUpdate cfg hotelId cb s"
| "step cfg s (OffRoomUpdate hotelId callback) = offRoomUpdate hotelId callback s"
| "step cfg s (OnActivityUpdate hotelId cb) = onActivityUpdate cfg hotelId cb s"
| "step cfg s (OffActivityUpdate hotelId callback) = offActivityUpdate hotelId callback s"
| "step cfg s (Emit event args) = (case emit cfg event args s of Inl err \<Rightarrow> s | Inr s' \<Rightarrow> s')"
| "step cfg s (WsOpen w) =
     (if w < length (wsockets s) \<and> ws_readyState (wsockets s ! w) = CONNECTING
      then ws_onopen (ws_connectionTimeout (wsockets s ! w)) (set_ws_readyState w OPEN s)
      else s)"
| "step cfg s (WsClose w code) =
     (if w < length (wsockets s) \<and> ws_readyState (wsockets s ! w) \<noteq> CLOSED
      then ws_onclose (ws_connectionTimeout (wsockets s ! w)) code (set_ws_readyState w CLOSED s)
      else s)"
| "step cfg s (WsError w) =
     (if w < length (wsockets s) \<and> ws_readyState (wsockets s ! w) \<noteq> CLOSED
      then ws_onerror (ws_connectionTimeout (wsockets s ! w)) s
      else s)"
| "step cfg s (WsMessage w raw) =
     (if w < length (wsockets s) \<and> ws_readyState (wsockets s ! w) = OPEN
      then ws_onmessage cfg raw s
      else s)"
| "step cfg s (Fire t) = fire cfg t s"
| "step cfg s (SseOpen e) =
     (if e < length (eventSources s) \<and> es_readyState (eventSources s ! e) = CONNECTING
      then es_onopen (set_es_readyState e OPEN s)
      else s)"
| "step cfg s (SseMessage e raw) =
     (if e < length (eventSources s) \<and> es_readyState (eventSources s ! e) = OPEN
      then es_onmessage cfg raw s
      else s)"
| "step cfg s (SseError e closed) =
     (if e < length (eventSources s) \<and> es_readyState (eventSources s ! e) \<noteq> CLOSED
      then es_onerror (es_hotelId (eventSources s ! e)) closed
             (set_es_readyState e (if closed then CLOSED else CONNECTING) s)
      else s)"

definition run :: "'w config \<Rightarrow> 'w event list \<Rightarrow> 'w service \<Rightarrow> 'w service" where
  "run cfg evs s = foldl (step cfg) s evs"

text \<open>Two concrete configurations, development and production, whose frames are the
  values themselves and whose listeners only return.\<close>

definition dev_cfg :: "jsvalue config" where
  "dev_cfg = \<lparr> IS_PRODUCTION = False, JSON_parse = Some, JSON_stringify = (\<lambda>v. v),
      WebSocket_throws = False, EventSource_throws = False,
      listener = (\<lambda>cb v s. ([], False)) \<rparr>"

definition prod_cfg :: "jsvalue config" where
  "prod_cfg = \<lparr> IS_PRODUCTION = True, JSON_parse = Some, JSON_stringify = (\<lambda>v. v),
      WebSocket_throws = False, EventSource_throws = False,
      listener = (\<lambda>cb v s. ([], False)) \<rparr>"




section \<open>The listener registry\<close>





text \<open>Runs used below as concrete inputs. Two callers connect before the first socket
  has opened, both sockets open and are then closed by the server with code 1001, and the
  service is disconnected.\<close>

definition two_callers_then_disconnect :: "jsvalue event list" where
  "two_callers_then_disconnect =
     [Connect, Connect, WsOpen 0, WsOpen 1, WsClose 0 1001, WsClose 1 1001, Disconnect]"

text \<open>In production: a subscription opens the stream of hotel 7, which opens and then
  reports an error while the browser is reconnecting it.\<close>

definition stream_error_run :: "jsvalue event list" where
  "stream_error_run = [Connect, OnRoomUpdate ''7'' 1, SseOpen 0, SseError 0 False]"

text \<open>The streams of a hotel that are open.\<close>

definition open_streams :: "'w service \<Rightarrow> string \<Rightarrow> eventsource list" where
  "open_streams s hotelId =
     filter (\<lambda>e. es_hotelId e = hotelId \<and> es_readyState e = OPEN) (eventSources s)"

text \<open>A state in which no WebSocket was ever constructed and no reconnect timer was ever
  scheduled.\<close>

definition no_ws :: "'w service \<Rightarrow> bool" where
  "no_ws s =
     (wsockets s = [] \<and> socket s = None \<and> ReconnectTimer \<notin> t_kind ` set (timers s))"

section \<open>Auxiliary facts\<close>

lemmas svc_defs = run_def connect_def disconnect_def switchToSSE_def connectWebSocket_def
  attemptReconnect_def connectSSE_def setTimeout_def clearTimeout_def WebSocket_close_def
  EventSource_close_def connectionTimeout_fires_def ws_onopen_def ws_onclose_def ws_onerror_def
  es_onopen_def es_onerror_def sseRetry_fires_def fire_def set_ws_readyState_def
  set_es_readyState_def maxReconnectAttempts_def reconnectInterval_def init_def
  on_def off_def onRoomUpdate_def onActivityUpdate_def offRoomUpdate_def offActivityUpdate_def
  push_listener_def remove_listener_def

subsection \<open>\<^verbatim>\<open>indexOf\<close> and \<^verbatim>\<open>splice\<close>\<close>



subsection \<open>The registry under the public methods\<close>








subsection \<open>\<^verbatim>\<open>emit\<close>\<close>

lemma emit_dropped: "socket s = None \<or> \<not> isConnected s \<Longrightarrow> emit cfg event args s = Inr s"
  by (auto simp: emit_def split: option.splits)

lemma emit_open:
  "socket s = Some w \<Longrightarrow> isConnected s \<Longrightarrow> w < length (wsockets s) \<Longrightarrow>
   ws_readyState (wsockets s ! w) = OPEN \<Longrightarrow>
   emit cfg event args s =
     Inr (s\<lparr>sent := sent s @ [(w, JSON_stringify cfg (envelope event args))]\<rparr>)"
  by (simp add: emit_def WebSocket_send_def)

text \<open>With the handle set and \<^verbatim>\<open>isConnected\<close> true, but the socket of the handle still
  connecting, \<^verbatim>\<open>send\<close> throws and \<^verbatim>\<open>emit\<close> passes the exception to its caller.\<close>

lemma emit_connecting:
  "socket s = Some w \<Longrightarrow> isConnected s \<Longrightarrow> w < length (wsockets s) \<Longrightarrow>
   ws_readyState (wsockets s ! w) = CONNECTING \<Longrightarrow>
   emit cfg event args s = Inl InvalidStateError"
  by (simp add: emit_def WebSocket_send_def)

subsection \<open>Fields kept by the host operations\<close>

lemma kinds_update: "map t_kind (xs[t := (xs ! t)\<lparr>t_pending := b\<rparr>]) = map t_kind xs"
proof (cases "t < length xs")
  case True
  then show ?thesis by (simp add: map_update list_update_same_conv)
next
  case False
  then have "xs[t := (xs ! t)\<lparr>t_pending := b\<rparr>] = xs" by (simp add: list_update_beyond)
  then show ?thesis by simp
qed

lemma kinds_update_set: "t_kind ` set (xs[t := (xs ! t)\<lparr>t_pending := b\<rparr>]) = t_kind ` set xs"
  using arg_cong [OF kinds_update, of set xs t b] by simp

lemma clearTimeout_fields:
  "t_kind ` set (timers (clearTimeout t s)) = t_kind ` set (timers s)"
  "wsockets (clearTimeout t s) = wsockets s"
  "socket (clearTimeout t s) = socket s"
  by (simp_all add: clearTimeout_def kinds_update_set)

lemma EventSource_close_fields:
  "wsockets (EventSource_close e s) = wsockets s"
  "socket (EventSource_close e s) = socket s"
  "timers (EventSource_close e s) = timers s"
  "useSSE (EventSource_close e s) = useSSE s"
  "calls (EventSource_close e s) = calls s"
  by (simp_all add: EventSource_close_def)

lemma close_streams_fields:
  "wsockets (foldl (\<lambda>st (h, e). EventSource_close e st) s xs) = wsockets s"
  "socket (foldl (\<lambda>st (h, e). EventSource_close e st) s xs) = socket s"
  "timers (foldl (\<lambda>st (h, e). EventSource_close e st) s xs) = timers s"
  "useSSE (foldl (\<lambda>st (h, e). EventSource_close e st) s xs) = useSSE s"
  "calls (foldl (\<lambda>st (h, e). EventSource_close e st) s xs) = calls s"
  by (induction xs arbitrary: s) (simp_all add: EventSource_close_fields split: prod.splits)

subsection \<open>Delivery of a message\<close>

lemma es_onmessage_eq: "es_onmessage cfg raw s = ws_onmessage cfg raw s"
  by (simp add: es_onmessage_def ws_onmessage_def)












subsection \<open>Production never constructs a WebSocket\<close>

lemma no_ws_switchToSSE: "no_ws s \<Longrightarrow> no_ws (switchToSSE s)"
  by (auto simp: no_ws_def switchToSSE_def Let_def clearTimeout_fields split: option.splits)

lemma no_ws_connect: "IS_PRODUCTION cfg \<Longrightarrow> no_ws s \<Longrightarrow> no_ws (snd (connect cfg s))"
  using no_ws_switchToSSE [of s] by (auto simp: connect_def Let_def)

lemma no_ws_push: "no_ws (push_listener k cb s) = no_ws s"
  by (simp add: no_ws_def push_listener_def Let_def split: option.splits)

lemma no_ws_remove: "no_ws (remove_listener k c s) = no_ws s"
  by (simp add: no_ws_def remove_listener_def Let_def split: option.splits)

lemma no_ws_connectSSE: "no_ws (connectSSE cfg h s) = no_ws s"
  by (simp add: no_ws_def connectSSE_def Let_def)

lemma no_ws_disconnect: "no_ws s \<Longrightarrow> no_ws (disconnect s)"
  by (auto simp: no_ws_def disconnect_def Let_def close_streams_fields clearTimeout_fields
      split: option.splits)

text \<open>Neither do the public methods when a listener calls them, and so neither does the
  delivery of a message.\<close>

lemma no_ws_do_call:
  assumes prod: "IS_PRODUCTION cfg" and inv: "no_ws s" and c: "do_call cfg c s = Inr s'"
  shows "no_ws s'"
proof (cases c)
  case Call_connect
  with prod inv c no_ws_connect [of cfg s] show ?thesis by auto
next
  case Call_disconnect
  with inv c no_ws_disconnect [of s] show ?thesis by auto
next
  case (Call_on k cb)
  with prod inv c show ?thesis by (auto simp: on_def no_ws_push no_ws_connect)
next
  case (Call_off k cbo)
  with inv c show ?thesis by (auto simp: off_def no_ws_remove)
next
  case (Call_onRoomUpdate h cb)
  with prod inv c show ?thesis
    by (auto simp: onRoomUpdate_def Let_def no_ws_push no_ws_connect no_ws_connectSSE)
next
  case (Call_offRoomUpdate h cbo)
  with inv c show ?thesis by (auto simp: offRoomUpdate_def no_ws_remove)
next
  case (Call_onActivityUpdate h cb)
  with prod inv c show ?thesis
    by (auto simp: onActivityUpdate_def Let_def no_ws_push no_ws_connect no_ws_connectSSE)
next
  case (Call_offActivityUpdate h cbo)
  with inv c show ?thesis by (auto simp: offActivityUpdate_def no_ws_remove)
next
  case (Call_emit e args)
  with inv c show ?thesis by (auto simp: emit_def no_ws_def)
qed

lemma no_ws_perform:
  assumes prod: "IS_PRODUCTION cfg"
  shows "no_ws s \<Longrightarrow> no_ws (snd (snd (perform cfg key cs it s)))"
proof (induction cs arbitrary: it s)
  case Nil
  then show ?case by simp
next
  case (Cons c cs)
  show ?case
  proof (cases "do_call cfg c s")
    case (Inl e)
    with Cons.prems show ?thesis by simp
  next
    case (Inr s')
    from no_ws_do_call [OF prod Cons.prems Inr] have "no_ws s'" .
    from Cons.IH [OF this, of "after_call key c it s"] Inr show ?thesis by simp
  qed
qed

lemma no_ws_invoke:
  assumes prod: "IS_PRODUCTION cfg" and inv: "no_ws s"
  shows "no_ws (snd (snd (invoke cfg key cb payload it s)))"
proof -
  let ?s0 = "s\<lparr>calls := calls s @ [(cb, payload)]\<rparr>"
  have inv0: "no_ws ?s0" using inv by (simp add: no_ws_def)
  obtain cs throws where l: "listener cfg cb payload ?s0 = (cs, throws)"
    by (cases "listener cfg cb payload ?s0")
  obtain e it' s' where p: "perform cfg key cs it ?s0 = (e, it', s')"
    by (cases "perform cfg key cs it ?s0")
  from no_ws_perform [OF prod inv0, of key cs it] p have "no_ws s'" by simp
  with l p show ?thesis by (cases e) (simp_all add: invoke_def)
qed

lemma no_ws_forEach_from:
  assumes prod: "IS_PRODUCTION cfg"
  shows "no_ws s \<Longrightarrow> no_ws (snd (forEach_from cfg key payload n k it s))"
proof (induction n arbitrary: k it s)
  case 0
  then show ?case by simp
next
  case (Suc n)
  show ?case
  proof (cases "k < length (array_of key it s)")
    case False
    with Suc.IH [OF Suc.prems, of "Suc k" it] show ?thesis by simp
  next
    case True
    let ?cb = "array_of key it s ! k"
    obtain e it' s' where i: "invoke cfg key ?cb payload it s = (e, it', s')"
      by (cases "invoke cfg key ?cb payload it s")
    from no_ws_invoke [OF prod Suc.prems, of key ?cb payload it] i have inv': "no_ws s'"
      by simp
    show ?thesis
    proof (cases e)
      case (Some err)
      with True i inv' show ?thesis by simp
    next
      case None
      with True i Suc.IH [OF inv', of "Suc k" it'] show ?thesis by simp
    qed
  qed
qed

lemma no_ws_deliver:
  assumes prod: "IS_PRODUCTION cfg" and inv: "no_ws s"
  shows "no_ws (snd (deliver cfg data s))"
  using inv no_ws_forEach_from [OF prod inv]
  by (auto simp: deliver_def forEach_listener_def split: sum.splits jsvalue.splits option.splits)

lemma no_ws_onmessage:
  assumes prod: "IS_PRODUCTION cfg" and inv: "no_ws s"
  shows "no_ws (ws_onmessage cfg raw s)"
  using inv no_ws_deliver [OF prod inv] by (simp add: ws_onmessage_def split: option.splits)

lemma no_ws_fire:
  assumes prod: "IS_PRODUCTION cfg" and inv: "no_ws s"
  shows "no_ws (fire cfg t s)"
proof (cases "t < length (timers s) \<and> t_pending (timers s ! t)")
  case False
  with inv show ?thesis by (auto simp: fire_def)
next
  case True
  let ?s1 = "s\<lparr>timers := (timers s)[t := (timers s ! t)\<lparr>t_pending := False\<rparr>]\<rparr>"
  from True have "timers s ! t \<in> set (timers s)" by simp
  then have "t_kind (timers s ! t) \<in> t_kind ` set (timers s)" by (rule imageI)
  with inv have k: "t_kind (timers s ! t) \<noteq> ReconnectTimer"
    unfolding no_ws_def by metis
  from inv k have inv1: "no_ws ?s1"
    by (auto simp: no_ws_def kinds_update_set)
  show ?thesis
  proof (cases "t_kind (timers s ! t)")
    case ConnectionTimeout
    with True inv1 show ?thesis
      by (simp add: fire_def Let_def connectionTimeout_fires_def no_ws_def)
  next
    case ReconnectTimer
    with k show ?thesis by simp
  next
    case (SSERetry h)
    with True inv1 show ?thesis
      by (simp add: fire_def Let_def sseRetry_fires_def no_ws_connectSSE) (simp add: no_ws_def)
  qed
qed

lemma no_ws_step:
  assumes prod: "IS_PRODUCTION cfg" and inv: "no_ws s"
  shows "no_ws (step cfg s ev)"
proof (cases ev)
  case Connect
  with prod inv show ?thesis by (simp add: no_ws_connect)
next
  case Disconnect
  with inv show ?thesis by (simp add: no_ws_disconnect)
next
  case (On k cb)
  with prod inv show ?thesis by (simp add: on_def no_ws_push no_ws_connect)
next
  case (Off k c)
  with inv show ?thesis by (simp add: off_def no_ws_remove)
next
  case (OnRoomUpdate h cb)
  with prod inv show ?thesis
    by (simp add: onRoomUpdate_def Let_def no_ws_push no_ws_connect no_ws_connectSSE)
next
  case (OffRoomUpdate h c)
  with inv show ?thesis by (simp add: offRoomUpdate_def no_ws_remove)
next
  case (OnActivityUpdate h cb)
  with prod inv show ?thesis
    by (simp add: onActivityUpdate_def Let_def no_ws_push no_ws_connect no_ws_connectSSE)
next
  case (OffActivityUpdate h c)
  with inv show ?thesis by (simp add: offActivityUpdate_def no_ws_remove)
next
  case (Emit e args)
  with inv show ?thesis by (simp add: emit_def no_ws_def)
next
  case (WsOpen w)
  with inv show ?thesis by (simp add: no_ws_def)
next
  case (WsClose w c)
  with inv show ?thesis by (simp add: no_ws_def)
next
  case (WsError w)
  with inv show ?thesis by (simp add: no_ws_def)
next
  case (WsMessage w raw)
  with inv show ?thesis by (simp add: no_ws_def)
next
  case (Fire t)
  with prod inv show ?thesis by (simp add: no_ws_fire)
next
  case (SseOpen e)
  with inv show ?thesis by (simp add: no_ws_def es_onopen_def set_es_readyState_def)
next
  case (SseMessage e raw)
  with inv no_ws_onmessage [OF prod inv, of raw] show ?thesis
    by (simp add: es_onmessage_eq)
next
  case (SseError e closed)
  with inv show ?thesis
    by (simp add: no_ws_def es_onerror_def set_es_readyState_def setTimeout_def Let_def)
qed

lemma no_ws_run: "IS_PRODUCTION cfg \<Longrightarrow> no_ws s \<Longrightarrow> no_ws (run cfg evs s)"
  unfolding run_def by (induction evs arbitrary: s) (simp_all add: no_ws_step)

lemma no_ws_init: "no_ws init"
  by (simp add: no_ws_def init_def)

subsection \<open>After \<^verbatim>\<open>disconnect\<close>\<close>

lemma disconnect_fields: "socket (disconnect s) = None \<and> \<not> useSSE (disconnect s)"
  by (simp add: disconnect_def Let_def close_streams_fields split: option.splits)

text \<open>The callbacks of a connection timeout and of a stream retry find nothing to do after
  \<^verbatim>\<open>disconnect\<close>: the handle is null and the service is not in fallback mode.\<close>

lemma disconnect_silences:
  "connectionTimeout_fires (disconnect s) = disconnect s \<and>
   sseRetry_fires cfg h (disconnect s) = disconnect s"
  by (simp add: connectionTimeout_fires_def sseRetry_fires_def disconnect_fields)

lemma clearTimeout_not_pending:
  "t < length (timers s) \<Longrightarrow> t_pending (timers (clearTimeout t s) ! t) = False"
  by (simp add: clearTimeout_def)

lemma clearTimeout_keeps_cleared:
  "t < length (timers s) \<Longrightarrow> t_pending (timers s ! t) = False \<Longrightarrow>
   t_pending (timers (clearTimeout u s) ! t) = False"
  by (simp add: clearTimeout_def nth_list_update)

lemma clearTimeout_length: "length (timers (clearTimeout t s)) = length (timers s)"
  by (simp add: clearTimeout_def)

lemma disconnect_timers:
  "timers (disconnect s) =
     timers (case pollingInterval s of
               Some p \<Rightarrow>
                 clearTimeout p
                   (case reconnectTimer s of Some t \<Rightarrow> clearTimeout t s | None \<Rightarrow> s)
             | None \<Rightarrow> (case reconnectTimer s of Some t \<Rightarrow> clearTimeout t s | None \<Rightarrow> s))"
  by (simp add: disconnect_def Let_def close_streams_fields clearTimeout_def WebSocket_close_def
      split: option.splits)

text \<open>The reconnect timer that \<^verbatim>\<open>reconnectTimer\<close> holds is cleared by \<^verbatim>\<open>disconnect\<close> and
  does not fire afterwards.\<close>

lemma disconnect_clears_tracked_timer:
  assumes "reconnectTimer s = Some t"
  shows "fire cfg t (disconnect s) = disconnect s"
proof (cases "t < length (timers s)")
  case False
  then have "\<not> t < length (timers (disconnect s))"
    using assms by (simp add: disconnect_timers clearTimeout_length split: option.splits)
  then show ?thesis by (simp add: fire_def)
next
  case True
  then have "t_pending (timers (disconnect s) ! t) = False"
    using assms
    by (simp add: disconnect_timers clearTimeout_not_pending clearTimeout_keeps_cleared
        clearTimeout_length split: option.splits)
  then show ?thesis by (simp add: fire_def)
qed

subsection \<open>Subscriptions of one hotel in fallback mode\<close>

lemma resubscribe_known_hotel:
  assumes "useSSE s" and "map_of (sseConnections s) h \<noteq> None"
  shows "eventSources (foldl (\<lambda>st cb. onRoomUpdate cfg h cb st) s cbs) = eventSources s"
  using assms
proof (induction cbs arbitrary: s)
  case Nil
  show ?case by simp
next
  case (Cons cb cbs)
  let ?s1 = "onRoomUpdate cfg h cb s"
  from Cons.prems have "useSSE ?s1 \<and> map_of (sseConnections ?s1) h \<noteq> None \<and>
      eventSources ?s1 = eventSources s"
    by (auto simp: onRoomUpdate_def push_listener_def connectSSE_def Let_def split: option.splits)
  with Cons.IH [of ?s1] show ?case by simp
qed

lemma subscribe_without_EventSource:
  assumes "useSSE s" and "EventSource_throws cfg"
  shows "eventSources (foldl (\<lambda>st cb. onRoomUpdate cfg h cb st) s cbs) = eventSources s"
  using assms
proof (induction cbs arbitrary: s)
  case Nil
  show ?case by simp
next
  case (Cons cb cbs)
  let ?s1 = "onRoomUpdate cfg h cb s"
  from Cons.prems have "useSSE ?s1 \<and> eventSources ?s1 = eventSources s"
    by (auto simp: onRoomUpdate_def push_listener_def connectSSE_def Let_def split: option.splits)
  with Cons.IH [of ?s1] Cons.prems show ?case by simp
qed

text \<open>Subscriptions alone, with no stream error between them, open at most one stream.\<close>

lemma subscribe_opens_at_most_one:
  assumes "useSSE s"
  shows "length (eventSources (foldl (\<lambda>st cb. onRoomUpdate cfg h cb st) s cbs))
           \<le> Suc (length (eventSources s))"
proof (cases cbs)
  case Nil
  then show ?thesis by simp
next
  case (Cons cb rest)
  let ?s1 = "onRoomUpdate cfg h cb s"
  show ?thesis
  proof (cases "EventSource_throws cfg")
    case True
    with assms subscribe_without_EventSource [of s cfg h cbs] show ?thesis by simp
  next
    case False
    from assms False have s1: "useSSE ?s1 \<and> map_of (sseConnections ?s1) h \<noteq> None \<and>
        length (eventSources ?s1) \<le> Suc (length (eventSources s))"
      by (auto simp: onRoomUpdate_def push_listener_def connectSSE_def Let_def update_conv'
          split: option.splits)
    with resubscribe_known_hotel [of ?s1 h cfg rest] Cons show ?thesis by simp
  qed
qed

section \<open>Claims\<close>

subsection \<open>C1: close code 1006\<close>

text \<open>
  C1 says that a close with code 1006 switches to fallback in the same callback and leaves
  \<^verbatim>\<open>reconnectAttempts\<close> as it was. The switch is there; the counter is not left alone:
  \<^verbatim>\<open>switchToSSE\<close> assigns 0 to it. After a server close (1001) and the reconnect timer, the
  counter is 1, and a close of the new socket with 1006 makes it 0.
\<close>

theorem close_1006_counter_counterexample:
  "\<not> useSSE (run dev_cfg [Connect, WsOpen 0, WsClose 0 1001, Fire 1] init) \<and>
   reconnectAttempts (run dev_cfg [Connect, WsOpen 0, WsClose 0 1001, Fire 1] init) = 1 \<and>
   reconnectAttempts
     (step dev_cfg (run dev_cfg [Connect, WsOpen 0, WsClose 0 1001, Fire 1] init) (WsClose 1 1006))
     \<noteq> reconnectAttempts (run dev_cfg [Connect, WsOpen 0, WsClose 0 1001, Fire 1] init)"
  by (simp add: svc_defs dev_cfg_def Let_def)

text \<open>
  C1, amended: when the close handler of a WebSocket runs with code 1006, the service is in
  fallback mode when the handler returns (\<^verbatim>\<open>useSSE\<close> set, \<^verbatim>\<open>isConnected\<close> cleared, the handle
  and the reconnect timer dropped), and \<^verbatim>\<open>reconnectAttempts\<close> is 0: the path resets the
  counter and never increments it, so the counter is unmodified exactly when it was 0.
\<close>

theorem close_1006_switches_and_resets:
  "useSSE (ws_onclose ct 1006 s) \<and>
   isConnected (ws_onclose ct 1006 s) = False \<and>
   socket (ws_onclose ct 1006 s) = None \<and>
   reconnectTimer (ws_onclose ct 1006 s) = None \<and>
   reconnectAttempts (ws_onclose ct 1006 s) = 0 \<and>
   (reconnectAttempts (ws_onclose ct 1006 s) = reconnectAttempts s) = (reconnectAttempts s = 0)"
  by (auto simp: ws_onclose_def switchToSSE_def clearTimeout_def WebSocket_close_def Let_def
      split: option.splits)

subsection \<open>C2: the reconnect ceiling\<close>

text \<open>
  C2 says that two failed attempts in a row (the ceiling) end in fallback. They do not:
  \<^verbatim>\<open>attemptReconnect\<close> compares before it increments, so the first attempt and two
  reconnects are made. After two failures the service still waits for its second reconnect;
  if that third socket opens, the run ends connected and never in fallback.
\<close>

theorem two_failures_counterexample:
  "useSSE (run dev_cfg [Connect, WsClose 0 1000, Fire 1, WsClose 1 1000] init) = False \<and>
   useSSE (run dev_cfg [Connect, WsClose 0 1000, Fire 1, WsClose 1 1000, Fire 3, WsOpen 2] init)
     = False \<and>
   isConnected (run dev_cfg [Connect, WsClose 0 1000, Fire 1, WsClose 1 1000, Fire 3, WsOpen 2] init)"
  by (simp add: svc_defs dev_cfg_def Let_def)

text \<open>
  C2, amended: from the initial state in development, when the WebSocket fails to open
  three times in a row (the ceiling plus one), each time by a close with a code other than
  1006 and with the reconnect timer (timers 1 and 3 of the run) firing in between, the
  service ends in fallback mode.
  \<^verbatim>\<open>reconnectAttempts\<close> equals the ceiling when the third close arrives, and the switch
  resets it to 0. After the second failure the service is not in fallback.
\<close>

theorem three_failures_reach_fallback:
  assumes "\<not> IS_PRODUCTION cfg" and "\<not> WebSocket_throws cfg"
    and "c1 \<noteq> 1006" and "c2 \<noteq> 1006" and "c3 \<noteq> 1006"
  shows "reconnectTimer (run cfg [Connect, WsClose 0 c1] init) = Some 1 \<and>
     reconnectTimer (run cfg [Connect, WsClose 0 c1, Fire 1, WsClose 1 c2] init) = Some 3 \<and>
     useSSE (run cfg [Connect, WsClose 0 c1, Fire 1, WsClose 1 c2] init) = False \<and>
     useSSE (run cfg [Connect, WsClose 0 c1, Fire 1, WsClose 1 c2, Fire 3] init) = False \<and>
     socket (run cfg [Connect, WsClose 0 c1, Fire 1, WsClose 1 c2, Fire 3] init) = Some 2 \<and>
     reconnectAttempts (run cfg [Connect, WsClose 0 c1, Fire 1, WsClose 1 c2, Fire 3] init)
       = maxReconnectAttempts \<and>
     useSSE (run cfg [Connect, WsClose 0 c1, Fire 1, WsClose 1 c2, Fire 3, WsClose 2 c3] init) \<and>
     reconnectAttempts
       (run cfg [Connect, WsClose 0 c1, Fire 1, WsClose 1 c2, Fire 3, WsClose 2 c3] init) = 0"
  using assms by (simp add: svc_defs Let_def)

theorem three_failures_reach_fallback_witness:
  "\<not> IS_PRODUCTION dev_cfg \<and> \<not> WebSocket_throws dev_cfg \<and>
   (1000::nat) \<noteq> 1006 \<and> (1001::nat) \<noteq> 1006 \<and> (1011::nat) \<noteq> 1006 \<and>
   useSSE (run dev_cfg [Connect, WsClose 0 1000, Fire 1, WsClose 1 1001, Fire 3, WsClose 2 1011] init) \<and>
   reconnectAttempts
     (run dev_cfg [Connect, WsClose 0 1000, Fire 1, WsClose 1 1001, Fire 3] init) = 2"
proof -
  have h1: "\<not> IS_PRODUCTION dev_cfg" by (simp add: dev_cfg_def)
  have h2: "\<not> WebSocket_throws dev_cfg" by (simp add: dev_cfg_def)
  have h3: "(1000::nat) \<noteq> 1006" and h4: "(1001::nat) \<noteq> 1006" and h5: "(1011::nat) \<noteq> 1006"
    by simp_all
  from three_failures_reach_fallback [OF h1 h2 h3 h4 h5] h1 h2
  show ?thesis by (simp add: maxReconnectAttempts_def)
qed

subsection \<open>C3: timers after \<^verbatim>\<open>disconnect\<close>\<close>

text \<open>
  C3: after \<^verbatim>\<open>disconnect\<close>, no timer scheduled before it may change the state. The code
  keeps one handle, \<^verbatim>\<open>reconnectTimer\<close>, and \<^verbatim>\<open>attemptReconnect\<close> overwrites it without
  clearing the timer it held. With two sockets alive (two \<^verbatim>\<open>connect()\<close> calls before the
  first socket opened), both closed by the server, two reconnect timers are pending and
  \<^verbatim>\<open>disconnect\<close> clears the second only. The first (timer 2) is still pending after
  \<^verbatim>\<open>disconnect\<close>; when it fires, \<^verbatim>\<open>connectWebSocket\<close> constructs a third WebSocket and sets
  the handle again.
\<close>

theorem zombie_reconnect_after_disconnect:
  "socket (run dev_cfg two_callers_then_disconnect init) = None \<and>
   length (wsockets (run dev_cfg two_callers_then_disconnect init)) = 2 \<and>
   reconnectTimer (run dev_cfg two_callers_then_disconnect init) = None \<and>
   t_kind (timers (run dev_cfg two_callers_then_disconnect init) ! 2) = ReconnectTimer \<and>
   t_pending (timers (run dev_cfg two_callers_then_disconnect init) ! 2) \<and>
   socket (step dev_cfg (run dev_cfg two_callers_then_disconnect init) (Fire 2)) = Some 2 \<and>
   length (wsockets (step dev_cfg (run dev_cfg two_callers_then_disconnect init) (Fire 2))) = 3"
  by (simp add: svc_defs dev_cfg_def two_callers_then_disconnect_def Let_def)

subsection \<open>C4: round trip of an emitted frame\<close>




subsection \<open>C5: production goes straight to fallback\<close>

text \<open>
  C5: in production, in any state the service can reach from its initial state in which
  fallback is not yet active, \<^verbatim>\<open>connect()\<close> returns null and leaves the service in fallback
  mode, with no WebSocket constructed and \<^verbatim>\<open>isConnected\<close> false. Whatever happens afterwards
  (\<open>evs'\<close>), there is still no WebSocket and no handle, so no WebSocket open event can occur
  and set \<^verbatim>\<open>isConnected\<close>: the connected-bidirectional state is never entered.
\<close>

theorem production_connect_skips_websocket:
  assumes "IS_PRODUCTION cfg" and "\<not> useSSE (run cfg evs init)"
  shows "fst (connect cfg (run cfg evs init)) = None \<and>
         useSSE (snd (connect cfg (run cfg evs init))) \<and>
         isConnected (snd (connect cfg (run cfg evs init))) = False \<and>
         socket (snd (connect cfg (run cfg evs init))) = None \<and>
         wsockets (snd (connect cfg (run cfg evs init))) = [] \<and>
         socket (run cfg evs' (snd (connect cfg (run cfg evs init)))) = None \<and>
         wsockets (run cfg evs' (snd (connect cfg (run cfg evs init)))) = [] \<and>
         step cfg (run cfg evs' (snd (connect cfg (run cfg evs init)))) (WsOpen w) =
           run cfg evs' (snd (connect cfg (run cfg evs init)))"
proof -
  let ?s = "run cfg evs init"
  let ?s' = "snd (connect cfg ?s)"
  have inv: "no_ws ?s" using assms(1) by (simp add: no_ws_run no_ws_init)
  then have sock: "socket ?s = None" by (simp add: no_ws_def)
  have inv': "no_ws ?s'" using assms(1) inv by (rule no_ws_connect)
  have inv'': "no_ws (run cfg evs' ?s')" using assms(1) inv' by (rule no_ws_run)
  have c: "connect cfg ?s = (None, switchToSSE ?s)"
    using assms sock by (simp add: connect_def)
  have "useSSE (switchToSSE ?s) \<and> \<not> isConnected (switchToSSE ?s)"
    by (simp add: switchToSSE_def Let_def clearTimeout_def WebSocket_close_def
        split: option.splits)
  with c inv' inv'' show ?thesis by (simp add: no_ws_def)
qed

theorem production_connect_skips_websocket_witness:
  "IS_PRODUCTION prod_cfg \<and> useSSE (run prod_cfg [] init) = False \<and>
   useSSE (snd (connect prod_cfg (run prod_cfg [] init))) \<and>
   wsockets (run prod_cfg [OnRoomUpdate ''7'' 1, SseOpen 0, WsOpen 0]
     (snd (connect prod_cfg (run prod_cfg [] init)))) = []"
proof -
  have h1: "IS_PRODUCTION prod_cfg" by (simp add: prod_cfg_def)
  have h2: "\<not> useSSE (run prod_cfg [] init)" by (simp add: run_def init_def)
  from production_connect_skips_websocket [OF h1 h2, of "[OnRoomUpdate ''7'' 1, SseOpen 0, WsOpen 0]" 0]
    h1 h2
  show ?thesis by simp
qed

subsection \<open>C6: subscribe and unsubscribe\<close>



subsection \<open>C7: one stream per hotel\<close>

text \<open>
  C7: at most one open stream per hotel. \<^verbatim>\<open>connectSSE\<close> returns early for a hotel that is in
  \<^verbatim>\<open>sseConnections\<close>, but \<^verbatim>\<open>onerror\<close> deletes the entry of a stream without closing it
  (\<^verbatim>\<open>disconnect\<close> closes before it clears). While the browser reconnects that stream, the
  next subscription for the hotel, or the retry timer of the service itself, opens a
  second one. In production, after the stream of hotel 7 has reported an error
  (\<open>stream_error_run\<close>), either path followed by the open events of both streams leaves two
  open streams for hotel 7.
\<close>

theorem two_open_streams_for_one_hotel:
  "length (open_streams (run prod_cfg stream_error_run init) ''7'') = 0 \<and>
   length (eventSources (run prod_cfg stream_error_run init)) = 1 \<and>
   es_readyState (eventSources (run prod_cfg stream_error_run init) ! 0) = CONNECTING \<and>
   length (open_streams
     (run prod_cfg [OnActivityUpdate ''7'' 2, SseOpen 1, SseOpen 0]
        (run prod_cfg stream_error_run init)) ''7'') = 2 \<and>
   length (open_streams
     (run prod_cfg [Fire 0, SseOpen 1, SseOpen 0]
        (run prod_cfg stream_error_run init)) ''7'') = 2"
  by (simp add: svc_defs prod_cfg_def stream_error_run_def open_streams_def Let_def)

subsection \<open>C8: key and payload of an inbound message\<close>




subsection \<open>C9: \<^verbatim>\<open>emit\<close>\<close>

text \<open>
  C9: with the handle null or \<^verbatim>\<open>isConnected\<close> false, \<^verbatim>\<open>emit\<close> returns and changes nothing
  (lemma \<open>emit_dropped\<close>); with the handle set and \<^verbatim>\<open>isConnected\<close> true it is to send
  exactly the envelope. It does when the socket of the handle is open (lemma \<open>emit_open\<close>).
  But \<^verbatim>\<open>isConnected\<close> is one flag written by the handlers of every socket: after two
  \<^verbatim>\<open>connect()\<close> calls before the first socket has opened, the handle is the second socket,
  and when the first one opens the flag is true while the socket of the handle is still
  connecting. There \<^verbatim>\<open>emit\<close> passes the guard, \<^verbatim>\<open>send\<close> throws InvalidStateError to the
  caller of \<^verbatim>\<open>emit\<close>, and nothing is sent.
\<close>

theorem emit_throws_while_handle_connecting:
  "socket (run dev_cfg [Connect, Connect, WsOpen 0] init) = Some 1 \<and>
   isConnected (run dev_cfg [Connect, Connect, WsOpen 0] init) \<and>
   ws_readyState (wsockets (run dev_cfg [Connect, Connect, WsOpen 0] init) ! 0) = OPEN \<and>
   ws_readyState (wsockets (run dev_cfg [Connect, Connect, WsOpen 0] init) ! 1) = CONNECTING \<and>
   emit dev_cfg ''ping'' [Num 1] (run dev_cfg [Connect, Connect, WsOpen 0] init) =
     Inl InvalidStateError \<and>
   sent (run dev_cfg [Connect, Connect, WsOpen 0, Emit ''ping'' [Num 1]] init) = []"
  by (simp add: svc_defs dev_cfg_def Let_def emit_def envelope_def WebSocket_send_def)

subsection \<open>C10: \<^verbatim>\<open>isSocketConnected\<close> in fallback mode\<close>

text \<open>
  C10: when a stream fires its open event in a state whose WebSocket handle is null,
  \<^verbatim>\<open>isSocketConnected()\<close> returns true afterwards although the handle is still null, and
  \<^verbatim>\<open>emit\<close> then sends nothing and leaves the service as it is: a true result of
  \<^verbatim>\<open>isSocketConnected()\<close> does not mean that \<^verbatim>\<open>emit\<close> delivers.
\<close>

theorem stream_open_reports_connected:
  assumes "e < length (eventSources s)"
    and "es_readyState (eventSources s ! e) = CONNECTING"
    and "socket s = None"
  shows "isSocketConnected (step cfg s (SseOpen e)) \<and>
         getSocket (step cfg s (SseOpen e)) = None \<and>
         emit cfg event args (step cfg s (SseOpen e)) = Inr (step cfg s (SseOpen e)) \<and>
         sent (step cfg s (SseOpen e)) = sent s"
  using assms
  by (simp add: isSocketConnected_def getSocket_def es_onopen_def set_es_readyState_def emit_def)

theorem stream_open_reports_connected_witness:
  "0 < length (eventSources (run prod_cfg [Connect, OnRoomUpdate ''7'' 1] init)) \<and>
   es_readyState (eventSources (run prod_cfg [Connect, OnRoomUpdate ''7'' 1] init) ! 0) = CONNECTING \<and>
   socket (run prod_cfg [Connect, OnRoomUpdate ''7'' 1] init) = None \<and>
   isSocketConnected (step prod_cfg (run prod_cfg [Connect, OnRoomUpdate ''7'' 1] init) (SseOpen 0)) \<and>
   getSocket (step prod_cfg (run prod_cfg [Connect, OnRoomUpdate ''7'' 1] init) (SseOpen 0)) = None \<and>
   emit prod_cfg ''roomUpdate:7'' [Obj [(''status'', Str ''occupied'')]]
       (step prod_cfg (run prod_cfg [Connect, OnRoomUpdate ''7'' 1] init) (SseOpen 0)) =
     Inr (step prod_cfg (run prod_cfg [Connect, OnRoomUpdate ''7'' 1] init) (SseOpen 0)) \<and>
   sent (step prod_cfg (run prod_cfg [Connect, OnRoomUpdate ''7'' 1] init) (SseOpen 0)) = []"
proof -
  let ?s = "run prod_cfg [Connect, OnRoomUpdate ''7'' 1] init"
  have h1: "0 < length (eventSources ?s)" by (simp add: svc_defs prod_cfg_def Let_def)
  have h2: "es_readyState (eventSources ?s ! 0) = CONNECTING"
    by (simp add: svc_defs prod_cfg_def Let_def)
  have h3: "socket ?s = None" by (simp add: svc_defs prod_cfg_def Let_def)
  have s0: "sent ?s = []" by (simp add: svc_defs prod_cfg_def Let_def)
  from stream_open_reports_connected [OF h1 h2 h3, of prod_cfg "''roomUpdate:7''"
      "[Obj [(''status'', Str ''occupied'')]]"] h1 h2 h3 s0
  show ?thesis by (simp del: step.simps)
qed

end
